theory Spec2Isabelle
  imports Complex_Main
begin

section \<open>Numbers, constants and settings\<close>

text \<open>
  The program is \<^verbatim>\<open>src/main.js\<close>. Its numbers are modelled by their ideal values: a
  world position or a height is a \<^typ>\<open>real\<close>, a chunk coordinate (the result of
  \<^verbatim>\<open>Math.floor\<close>, and the loop counters derived from it) is an \<^typ>\<open>int\<close>, a grid
  index is a \<^typ>\<open>nat\<close>. Rounding of binary floating point, \<^verbatim>\<open>NaN\<close> and infinite
  positions are outside this model.

  \<^verbatim>\<open>
  const CHUNK_SIZE = 10;
  const RENDER_DISTANCE = 3;
  const GRID_DIVISIONS = 15;
  const HEIGHT_SCALE = 3;
  \<close>
\<close>

definition CHUNK_SIZE :: real where
  "CHUNK_SIZE = 10"

definition RENDER_DISTANCE :: int where
  "RENDER_DISTANCE = 3"

definition GRID_DIVISIONS :: nat where
  "GRID_DIVISIONS = 15"

definition HEIGHT_SCALE :: real where
  "HEIGHT_SCALE = 3"

section \<open>Chunk keys\<close>

text \<open>
  The cache is keyed by the template literal \<^verbatim>\<open>${x},${z}\<close>. For an integer the
  conversion to a string writes a minus sign for a negative number and then the decimal
  digits, most significant first, without leading zeros.
\<close>

definition digit_char :: "nat \<Rightarrow> char" where
  "digit_char d = char_of (48 + d)"

fun digits :: "nat \<Rightarrow> string" where
  "digits n = (if n < 10 then [digit_char n] else digits (n div 10) @ [digit_char (n mod 10)])"

declare digits.simps [simp del]

definition NumberToString :: "int \<Rightarrow> string" where
  "NumberToString x = (if x < 0 then CHR ''-'' # digits (nat (- x)) else digits (nat x))"

definition chunkKey :: "int \<Rightarrow> int \<Rightarrow> string" where
  "chunkKey x z = NumberToString x @ '','' @ NumberToString z"

text \<open>
  Eviction reads a key back with \<^verbatim>\<open>key.split(',').map(Number)\<close>. Splitting at a
  separator always yields at least one piece (the empty string splits into one empty piece).
\<close>

fun String_split :: "char \<Rightarrow> string \<Rightarrow> string list" where
  "String_split sep [] = [[]]"
| "String_split sep (c # cs) =
     (if c = sep then [] # String_split sep cs
      else (case String_split sep cs of [] \<Rightarrow> [[c]] | w # ws \<Rightarrow> (c # w) # ws))"

text \<open>
  \<^verbatim>\<open>Number\<close> applied to a string: the empty string is 0, an optional sign followed by
  decimal digits is that integer. \<open>None\<close> stands for \<^verbatim>\<open>NaN\<close>. Strings in the other
  numeric notations of the language (fractions, exponents, radix prefixes, surrounding white
  space, \<^verbatim>\<open>Infinity\<close>) are not integers written by \<open>NumberToString\<close>; the model
  reads them as \<open>None\<close> too.
\<close>

definition is_digit :: "char \<Rightarrow> bool" where
  "is_digit c = (48 \<le> (of_char c :: nat) \<and> (of_char c :: nat) \<le> 57)"

definition digit_val :: "char \<Rightarrow> nat" where
  "digit_val c = of_char c - 48"

definition StrDecimalDigits :: "string \<Rightarrow> nat option" where
  "StrDecimalDigits ds =
     (if ds \<noteq> [] \<and> list_all is_digit ds
      then Some (foldl (\<lambda>a c. 10 * a + digit_val c) 0 ds) else None)"

definition StringToNumber :: "string \<Rightarrow> int option" where
  "StringToNumber s =
     (case s of
        [] \<Rightarrow> Some 0
      | c # cs \<Rightarrow>
          if c = CHR ''-'' then map_option (\<lambda>n. - int n) (StrDecimalDigits cs)
          else if c = CHR ''+'' then map_option int (StrDecimalDigits cs)
          else map_option int (StrDecimalDigits s))"

text \<open>
  The destructuring \<^verbatim>\<open>const [chunkX, chunkZ] = ...\<close> takes the first two pieces; a
  missing piece is \<^verbatim>\<open>undefined\<close>, which behaves as \<^verbatim>\<open>NaN\<close> in the arithmetic that
  follows.
\<close>

definition parseKey :: "string \<Rightarrow> int option \<times> int option" where
  "parseKey key =
     (case map StringToNumber (String_split CHR '','' key) of
        [] \<Rightarrow> (None, None)
      | [chunkX] \<Rightarrow> (chunkX, None)
      | chunkX # chunkZ # _ \<Rightarrow> (chunkX, chunkZ))"

section \<open>The world: noise generator, character, chunk cache and scene\<close>

text \<open>
  A vertex is a triple \<open>(x, y, z)\<close>. A chunk is the \<^verbatim>\<open>THREE.Group\<close> that
  \<^verbatim>\<open>createChunk\<close> returns: its line objects in the order they were added (each line is
  its list of vertices) and its position. Every \<^verbatim>\<open>new THREE.Group()\<close> is a new
  object; \<open>ident\<close> is the identity of the object, the number of groups allocated before it.
\<close>

type_synonym vertex = "real \<times> real \<times> real"

record chunkGroup =
  ident :: nat
  children :: "vertex list list"
  position :: vertex

datatype error = TypeError

text \<open>
  The module-level bindings that terrain streaming reads and writes:
  \<^verbatim>\<open>
  let character, mixer, currentAction;
  const chunks = new Map();
  const noise = new ImprovedNoise();
  \<close>
  \<^item> \<open>noise\<close> is the method \<^verbatim>\<open>noise.noise(x, y, z)\<close> of the generator created when the
    module is loaded. The generator is the library's; it is a parameter of the model.
  \<^item> \<open>character\<close> is the position of the character, \<open>None\<close> while the model is not
    loaded (the variable is \<^verbatim>\<open>undefined\<close>).
  \<^item> \<open>chunks\<close> is the \<^verbatim>\<open>Map\<close> from key to chunk, as the list of its entries in
    insertion order.
  \<^item> \<open>scene\<close> is the set of the identities of the objects registered for display.
  \<^item> \<open>allocated\<close> counts the chunk groups created so far.
\<close>

record world =
  noise :: "real \<Rightarrow> real \<Rightarrow> real \<Rightarrow> real"
  character :: "vertex option"
  chunks :: "(string \<times> chunkGroup) list"
  scene :: "nat set"
  allocated :: nat

text \<open>The operations of \<^verbatim>\<open>Map\<close> that the program uses.\<close>

definition Map_has :: "('k \<times> 'v) list \<Rightarrow> 'k \<Rightarrow> bool" where
  "Map_has m k = (k \<in> fst ` set m)"

definition Map_get :: "('k \<times> 'v) list \<Rightarrow> 'k \<Rightarrow> 'v option" where
  "Map_get m k = map_of m k"

definition Map_set :: "('k \<times> 'v) list \<Rightarrow> 'k \<Rightarrow> 'v \<Rightarrow> ('k \<times> 'v) list" where
  "Map_set m k v =
     (if Map_has m k then map (\<lambda>(k', v'). if k' = k then (k', v) else (k', v')) m
      else m @ [(k, v)])"

definition Map_delete :: "('k \<times> 'v) list \<Rightarrow> 'k \<Rightarrow> ('k \<times> 'v) list" where
  "Map_delete m k = filter (\<lambda>(k', v'). k' \<noteq> k) m"

text \<open>
  Modelled from the spec: the display collaborator (the \<^verbatim>\<open>THREE.Scene\<close> object, which
  is not part of the repository) accepts "add renderable object" and "remove renderable
  object" calls and holds the external display set.
\<close>

definition scene_add :: "nat set \<Rightarrow> nat \<Rightarrow> nat set" where
  "scene_add sc obj = insert obj sc"

definition scene_remove :: "nat set \<Rightarrow> nat \<Rightarrow> nat set" where
  "scene_remove sc obj = sc - {obj}"

section \<open>Height field and chunk factory\<close>

text \<open>
  \<^verbatim>\<open>
  function getNoiseHeight(x, z) {
      const scale = 0.1;
      return HEIGHT_SCALE * noise.noise(x * scale, 0, z * scale);
  }
  \<close>
\<close>

definition getNoiseHeight :: "world \<Rightarrow> real \<Rightarrow> real \<Rightarrow> real" where
  "getNoiseHeight s x z =
     (let scale = 0.1 in HEIGHT_SCALE * noise s (x * scale) 0 (z * scale))"

text \<open>
  In \<^verbatim>\<open>createChunk(x, z)\<close> the inner loop over \<open>j = 0, ..., GRID_DIVISIONS\<close> fills
  the two position buffers of the outer index \<open>i\<close>:
  \<^verbatim>\<open>
  const x1 = (i / GRID_DIVISIONS) * CHUNK_SIZE;
  const z1 = (j / GRID_DIVISIONS) * CHUNK_SIZE;
  const y1 = getNoiseHeight(x * CHUNK_SIZE + x1, z * CHUNK_SIZE + z1);
  const x2 = (j / GRID_DIVISIONS) * CHUNK_SIZE;
  const z2 = (i / GRID_DIVISIONS) * CHUNK_SIZE;
  const y2 = getNoiseHeight(x * CHUNK_SIZE + x2, z * CHUNK_SIZE + z2);
  positions1.push(x1, y1, z1);
  positions2.push(x2, y2, z2);
  \<close>
\<close>

definition positions1 :: "world \<Rightarrow> int \<Rightarrow> int \<Rightarrow> nat \<Rightarrow> vertex list" where
  "positions1 s x z i =
     map (\<lambda>j.
       let x1 = (real i / real GRID_DIVISIONS) * CHUNK_SIZE;
           z1 = (real j / real GRID_DIVISIONS) * CHUNK_SIZE;
           y1 = getNoiseHeight s (of_int x * CHUNK_SIZE + x1) (of_int z * CHUNK_SIZE + z1)
       in (x1, y1, z1)) [0..<GRID_DIVISIONS + 1]"

definition positions2 :: "world \<Rightarrow> int \<Rightarrow> int \<Rightarrow> nat \<Rightarrow> vertex list" where
  "positions2 s x z i =
     map (\<lambda>j.
       let x2 = (real j / real GRID_DIVISIONS) * CHUNK_SIZE;
           z2 = (real i / real GRID_DIVISIONS) * CHUNK_SIZE;
           y2 = getNoiseHeight s (of_int x * CHUNK_SIZE + x2) (of_int z * CHUNK_SIZE + z2)
       in (x2, y2, z2)) [0..<GRID_DIVISIONS + 1]"

text \<open>
  The outer loop over \<open>i = 0, ..., GRID_DIVISIONS\<close> adds the two lines of each index to
  the group, and the group is placed at \<^verbatim>\<open>(x * CHUNK_SIZE, 0, z * CHUNK_SIZE)\<close>. The
  function returns the new group; the world it returns has counted the allocation.
\<close>

definition createChunk :: "int \<Rightarrow> int \<Rightarrow> world \<Rightarrow> chunkGroup \<times> world" where
  "createChunk x z s =
     (\<lparr>ident = allocated s,
       children = concat (map (\<lambda>i. [positions1 s x z i, positions2 s x z i])
                    [0..<GRID_DIVISIONS + 1]),
       position = (of_int x * CHUNK_SIZE, 0, of_int z * CHUNK_SIZE)\<rparr>,
      s\<lparr>allocated := allocated s + 1\<rparr>)"

section \<open>Streaming update\<close>

text \<open>
  The body of the first pair of loops of \<^verbatim>\<open>updateChunks\<close>:
  \<^verbatim>\<open>
  const chunkKey = `${x},${z}`;
  if (!chunks.has(chunkKey)) {
      const chunk = createChunk(x, z);
      chunks.set(chunkKey, chunk);
      scene.add(chunk);
  }
  \<close>
\<close>

definition loadChunk :: "int \<Rightarrow> int \<Rightarrow> world \<Rightarrow> world" where
  "loadChunk x z s =
     (let key = chunkKey x z in
      if \<not> Map_has (chunks s) key then
        (let (chunk, s1) = createChunk x z s in
         s1\<lparr>chunks := Map_set (chunks s1) key chunk,
            scene := scene_add (scene s1) (ident chunk)\<rparr>)
      else s)"

text \<open>
  The eviction test
  \<^verbatim>\<open>Math.abs(chunkX - playerChunkX) > RENDER_DISTANCE || Math.abs(chunkZ - playerChunkZ) > RENDER_DISTANCE\<close>:
  a comparison with \<^verbatim>\<open>NaN\<close> is false.
\<close>

definition beyond :: "int option \<Rightarrow> int \<Rightarrow> bool" where
  "beyond c p = (case c of None \<Rightarrow> False | Some v \<Rightarrow> \<bar>v - p\<bar> > RENDER_DISTANCE)"

definition outOfRange :: "int \<Rightarrow> int \<Rightarrow> string \<Rightarrow> bool" where
  "outOfRange playerChunkX playerChunkZ key =
     (case parseKey key of
        (chunkX, chunkZ) \<Rightarrow> beyond chunkX playerChunkX \<or> beyond chunkZ playerChunkZ)"

text \<open>
  The body of the second loop, \<^verbatim>\<open>for (const [key, chunk] of chunks)\<close>:
  \<^verbatim>\<open>
  scene.remove(chunk);
  chunks.delete(key);
  \<close>
  when the test holds.
\<close>

definition unloadChunk :: "int \<Rightarrow> int \<Rightarrow> string \<times> chunkGroup \<Rightarrow> world \<Rightarrow> world" where
  "unloadChunk playerChunkX playerChunkZ entry s =
     (case entry of
        (key, chunk) \<Rightarrow>
          if outOfRange playerChunkX playerChunkZ key then
            s\<lparr>scene := scene_remove (scene s) (ident chunk),
              chunks := Map_delete (chunks s) key\<rparr>
          else s)"

text \<open>
  The two loop nests. The counters of the first run over the integers from
  \<open>playerChunk - RENDER_DISTANCE\<close> to \<open>playerChunk + RENDER_DISTANCE\<close>, the outer one over
  \<open>x\<close>, the inner one over \<open>z\<close>. The second visits the entries of the map in
  insertion order; the loop only ever deletes the entry it is visiting, so it visits every
  entry that the map had when the loop began.
\<close>

definition loadWindow :: "int \<Rightarrow> int \<Rightarrow> world \<Rightarrow> world" where
  "loadWindow playerChunkX playerChunkZ s =
     fold (\<lambda>x. fold (\<lambda>z. loadChunk x z)
             [playerChunkZ - RENDER_DISTANCE..playerChunkZ + RENDER_DISTANCE])
       [playerChunkX - RENDER_DISTANCE..playerChunkX + RENDER_DISTANCE] s"

definition unloadOutside :: "int \<Rightarrow> int \<Rightarrow> world \<Rightarrow> world" where
  "unloadOutside playerChunkX playerChunkZ s =
     fold (unloadChunk playerChunkX playerChunkZ) (chunks s) s"

text \<open>
  \<^verbatim>\<open>
  function updateChunks() {
      const playerChunkX = Math.floor(character.position.x / CHUNK_SIZE);
      const playerChunkZ = Math.floor(character.position.z / CHUNK_SIZE);
      ...
  }
  \<close>
  Reading \<^verbatim>\<open>character.position\<close> while the character is \<^verbatim>\<open>undefined\<close> throws a
  \<^verbatim>\<open>TypeError\<close>.
\<close>

definition updateChunks :: "world \<Rightarrow> error + world" where
  "updateChunks s =
     (case character s of
        None \<Rightarrow> Inl TypeError
      | Some (px, py, pz) \<Rightarrow>
          (let playerChunkX = \<lfloor>px / CHUNK_SIZE\<rfloor>;
               playerChunkZ = \<lfloor>pz / CHUNK_SIZE\<rfloor>
           in Inr (unloadOutside playerChunkX playerChunkZ
                     (loadWindow playerChunkX playerChunkZ s))))"

section \<open>Notions used to state the properties\<close>

text \<open>
  A key is canonical when it is the key of the coordinate pair it parses to. Every key that
  \<open>loadChunk\<close> stores is of this form, so a cache that started empty holds canonical keys
  only (\<open>wf_cache\<close>). The render window around a chunk coordinate is the inclusive square of
  radius \<open>RENDER_DISTANCE\<close>; a coordinate is resident when the cache has its key.
\<close>

definition canonicalKey :: "string \<Rightarrow> bool" where
  "canonicalKey key =
     (case parseKey key of
        (Some x, Some z) \<Rightarrow> chunkKey x z = key
      | _ \<Rightarrow> False)"

definition wf_cache :: "world \<Rightarrow> bool" where
  "wf_cache s = list_all (\<lambda>entry. canonicalKey (fst entry)) (chunks s)"

definition window :: "int \<Rightarrow> int \<Rightarrow> (int \<times> int) set" where
  "window playerChunkX playerChunkZ =
     {(x, z). \<bar>x - playerChunkX\<bar> \<le> RENDER_DISTANCE \<and> \<bar>z - playerChunkZ\<bar> \<le> RENDER_DISTANCE}"

definition resident :: "world \<Rightarrow> (int \<times> int) set" where
  "resident s = {(x, z). Map_has (chunks s) (chunkKey x z)}"

text \<open>
  The vertices of a chunk are the vertices of all its lines. \<open>gridVertex s x z i j\<close> is
  the vertex that \<open>createChunk x z\<close> computes in world \<open>s\<close> for the grid indices \<open>i\<close>
  along the first axis and \<open>j\<close> along the second (it is \<open>(x1, y1, z1)\<close> of the loop body at
  \<open>(i, j)\<close>, and \<open>(x2, y2, z2)\<close> at \<open>(j, i)\<close>).
\<close>

definition vertices :: "chunkGroup \<Rightarrow> vertex set" where
  "vertices g = (\<Union>line \<in> set (children g). set line)"

definition gridVertex :: "world \<Rightarrow> int \<Rightarrow> int \<Rightarrow> nat \<Rightarrow> nat \<Rightarrow> vertex" where
  "gridVertex s x z i j =
     (real i / real GRID_DIVISIONS * CHUNK_SIZE,
      getNoiseHeight s (of_int x * CHUNK_SIZE + real i / real GRID_DIVISIONS * CHUNK_SIZE)
        (of_int z * CHUNK_SIZE + real j / real GRID_DIVISIONS * CHUNK_SIZE),
      real j / real GRID_DIVISIONS * CHUNK_SIZE)"

text \<open>
  Modelled from the spec: the range of the noise generator. The generator is the
  \<^verbatim>\<open>ImprovedNoise\<close> object of the three.js library, whose code is not in the
  repository; the height bound rests on the statement that it
  "returns values in [-1, 1]".
\<close>

definition noise_in_range :: "world \<Rightarrow> bool" where
  "noise_in_range s = (\<forall>x y z. - 1 \<le> noise s x y z \<and> noise s x y z \<le> 1)"

text \<open>
  Two example worlds over an example noise function with values in \<open>[-1, 1]\<close>: one with
  an empty cache, and one in which the character stands at \<open>(25, 1, 0)\<close> (chunk coordinate
  \<open>(2, 0)\<close>) while the chunks of the coordinates \<open>(9, -9)\<close> and \<open>(2, 1)\<close> are resident
  and displayed.
\<close>

definition example_noise :: "real \<Rightarrow> real \<Rightarrow> real \<Rightarrow> real" where
  "example_noise x y z = (if x + z < 0 then - 1 else if x + z < 1 then x + z else 1)"

definition fresh_world :: world where
  "fresh_world =
     \<lparr>noise = example_noise, character = Some (0, 1, 0), chunks = [], scene = {},
      allocated = 0\<rparr>"

definition example_world :: world where
  "example_world =
     \<lparr>noise = example_noise, character = Some (25, 1, 0),
      chunks =
        [(chunkKey 9 (- 9), fst (createChunk 9 (- 9) fresh_world)),
         (chunkKey 2 1, fst (createChunk 2 1 (snd (createChunk 9 (- 9) fresh_world))))],
      scene = {0, 1}, allocated = 2\<rparr>"

section \<open>Keys: writing and reading back\<close>

lemma is_digit_digit_char: "d < 10 \<Longrightarrow> is_digit (digit_char d)"
  by (simp add: is_digit_def digit_char_def)

lemma digit_val_digit_char: "d < 10 \<Longrightarrow> digit_val (digit_char d) = d"
  by (simp add: digit_val_def digit_char_def)

lemma digits_all_digit: "list_all is_digit (digits n)"
  by (induction n rule: digits.induct) (subst digits.simps, simp add: is_digit_digit_char)

lemma digits_not_Nil: "digits n \<noteq> []"
  by (subst digits.simps) simp

lemma digits_value: "foldl (\<lambda>a c. 10 * a + digit_val c) 0 (digits n) = n"
  by (induction n rule: digits.induct) (subst digits.simps, simp add: digit_val_digit_char)

lemma StrDecimalDigits_digits: "StrDecimalDigits (digits n) = Some n"
  by (simp add: StrDecimalDigits_def digits_all_digit digits_not_Nil digits_value)

lemma is_digit_not_sign: "is_digit c \<Longrightarrow> c \<noteq> CHR ''-'' \<and> c \<noteq> CHR ''+'' \<and> c \<noteq> CHR '',''"
  by (auto simp add: is_digit_def)

lemma StringToNumber_NumberToString: "StringToNumber (NumberToString x) = Some x"
proof (cases "x < 0")
  case True
  then show ?thesis
    by (simp add: StringToNumber_def NumberToString_def StrDecimalDigits_digits)
next
  case False
  obtain c cs where d: "digits (nat x) = c # cs"
    using digits_not_Nil [of "nat x"] by (cases "digits (nat x)") auto
  have "is_digit c"
    using digits_all_digit [of "nat x"] d by simp
  then have "c \<noteq> CHR ''-''" "c \<noteq> CHR ''+''"
    using is_digit_not_sign by blast+
  then have "StringToNumber (c # cs) = map_option int (StrDecimalDigits (c # cs))"
    by (simp add: StringToNumber_def)
  with d [symmetric] False show ?thesis
    by (simp add: NumberToString_def StrDecimalDigits_digits)
qed

lemma comma_notin_NumberToString: "CHR '','' \<notin> set (NumberToString x)"
proof -
  have "\<forall>c \<in> set (digits n). c \<noteq> CHR '',''" for n
    using digits_all_digit [of n] is_digit_not_sign by (auto simp: list_all_iff)
  then show ?thesis
    by (auto simp: NumberToString_def)
qed

lemma String_split_no_sep: "sep \<notin> set s \<Longrightarrow> String_split sep s = [s]"
  by (induction s) auto

lemma String_split_append:
  "sep \<notin> set a \<Longrightarrow> String_split sep (a @ sep # b) = a # String_split sep b"
  by (induction a) auto

lemma parseKey_chunkKey: "parseKey (chunkKey x z) = (Some x, Some z)"
  by (simp add: parseKey_def chunkKey_def String_split_append String_split_no_sep
      comma_notin_NumberToString StringToNumber_NumberToString)

lemma chunkKey_inj: "chunkKey x z = chunkKey x' z' \<longleftrightarrow> x = x' \<and> z = z'"
proof
  assume "chunkKey x z = chunkKey x' z'"
  then have "parseKey (chunkKey x z) = parseKey (chunkKey x' z')" by simp
  then show "x = x' \<and> z = z'" by (simp add: parseKey_chunkKey)
qed simp

section \<open>The two phases of the update\<close>

lemma fold_nested_product:
  "fold (\<lambda>x. fold (\<lambda>z. f x z) zs) xs s = fold (\<lambda>(x, z). f x z) (List.product xs zs) s"
  by (induction xs arbitrary: s) (simp_all add: fold_map comp_def)

lemma loadChunk_present:
  "Map_has (chunks s) (chunkKey x z) \<Longrightarrow> loadChunk x z s = s"
  by (simp add: loadChunk_def)

lemma loadChunk_absent:
  "\<not> Map_has (chunks s) (chunkKey x z) \<Longrightarrow>
   loadChunk x z s =
     s\<lparr>allocated := allocated s + 1,
       chunks := chunks s @ [(chunkKey x z, fst (createChunk x z s))],
       scene := insert (allocated s) (scene s)\<rparr>"
  by (simp add: loadChunk_def createChunk_def Map_set_def scene_add_def)

lemma loadChunk_frame:
  "noise (loadChunk x z s) = noise s" "character (loadChunk x z s) = character s"
  by (cases "Map_has (chunks s) (chunkKey x z)"; simp add: loadChunk_present loadChunk_absent)+

lemma loadChunk_chunks:
  "\<exists>new. chunks (loadChunk x z s) = chunks s @ new"
  by (cases "Map_has (chunks s) (chunkKey x z)"; simp add: loadChunk_present loadChunk_absent)

lemma loadChunk_keys:
  "fst ` set (chunks (loadChunk x z s)) = insert (chunkKey x z) (fst ` set (chunks s))"
  by (cases "Map_has (chunks s) (chunkKey x z)")
     (auto simp add: loadChunk_present loadChunk_absent Map_has_def)

lemma loads_frame:
  "noise (fold (\<lambda>(x, z). loadChunk x z) cs s) = noise s"
  "character (fold (\<lambda>(x, z). loadChunk x z) cs s) = character s"
  by (induction cs arbitrary: s; simp add: loadChunk_frame split: prod.splits)+

lemma loads_chunks:
  "\<exists>new. chunks (fold (\<lambda>(x, z). loadChunk x z) cs s) = chunks s @ new"
proof (induction cs arbitrary: s)
  case Nil
  then show ?case by simp
next
  case (Cons c cs)
  obtain x z where c: "c = (x, z)" by (cases c)
  obtain n1 where n1: "chunks (loadChunk x z s) = chunks s @ n1"
    using loadChunk_chunks by blast
  obtain n2 where "chunks (fold (\<lambda>(x, z). loadChunk x z) cs (loadChunk x z s)) = chunks (loadChunk x z s) @ n2"
    using Cons.IH by blast
  with n1 c show ?case by simp
qed

lemma loads_keys:
  "fst ` set (chunks (fold (\<lambda>(x, z). loadChunk x z) cs s)) =
     fst ` set (chunks s) \<union> (\<lambda>(x, z). chunkKey x z) ` set cs"
proof (induction cs arbitrary: s)
  case Nil
  then show ?case by simp
next
  case (Cons c cs)
  obtain x z where c: "c = (x, z)" by (cases c)
  show ?case
    unfolding c by (simp add: Cons.IH loadChunk_keys)
qed

lemma loads_present:
  "\<forall>(x, z) \<in> set cs. Map_has (chunks s) (chunkKey x z) \<Longrightarrow>
   fold (\<lambda>(x, z). loadChunk x z) cs s = s"
  by (induction cs) (auto simp add: loadChunk_present)

lemma unloadChunk_frame:
  "noise (unloadChunk px pz e s) = noise s"
  "character (unloadChunk px pz e s) = character s"
  "allocated (unloadChunk px pz e s) = allocated s"
  by (simp_all add: unloadChunk_def split: prod.splits)

lemma unloads_frame:
  "noise (fold (unloadChunk px pz) es s) = noise s"
  "character (fold (unloadChunk px pz) es s) = character s"
  "allocated (fold (unloadChunk px pz) es s) = allocated s"
  by (induction es arbitrary: s; simp add: unloadChunk_frame)+

lemma unloadChunk_out:
  "outOfRange px pz k \<Longrightarrow>
   unloadChunk px pz (k, c) s =
     s\<lparr>scene := scene s - {ident c}, chunks := filter (\<lambda>e. fst e \<noteq> k) (chunks s)\<rparr>"
  by (simp add: unloadChunk_def scene_remove_def Map_delete_def case_prod_unfold)

lemma unloadChunk_in:
  "\<not> outOfRange px pz k \<Longrightarrow> unloadChunk px pz (k, c) s = s"
  by (simp add: unloadChunk_def)

lemma unloads_chunks:
  "chunks (fold (unloadChunk px pz) es s) =
     filter (\<lambda>e. \<not> (outOfRange px pz (fst e) \<and> fst e \<in> fst ` set es)) (chunks s)"
proof (induction es arbitrary: s)
  case Nil
  then show ?case by simp
next
  case (Cons e es)
  obtain k c where e: "e = (k, c)" by (cases e)
  show ?case
  proof (cases "outOfRange px pz k")
    case True
    then show ?thesis
      by (auto simp add: Cons.IH e unloadChunk_out intro!: filter_cong)
  next
    case False
    then show ?thesis
      by (auto simp add: Cons.IH e unloadChunk_in intro!: filter_cong)
  qed
qed

lemma unloads_scene:
  "scene (fold (unloadChunk px pz) es s) =
     scene s - (ident \<circ> snd) ` {e \<in> set es. outOfRange px pz (fst e)}"
proof (induction es arbitrary: s)
  case Nil
  then show ?case by simp
next
  case (Cons e es)
  obtain k c where e: "e = (k, c)" by (cases e)
  show ?case
  proof (cases "outOfRange px pz k")
    case True
    then have "{e' \<in> set (e # es). outOfRange px pz (fst e')} =
        insert (k, c) {e' \<in> set es. outOfRange px pz (fst e')}"
      by (auto simp add: e)
    then show ?thesis
      using True by (simp add: Cons.IH e unloadChunk_out) blast
  next
    case False
    then have "{e' \<in> set (e # es). outOfRange px pz (fst e')} =
        {e' \<in> set es. outOfRange px pz (fst e')}"
      by (auto simp add: e)
    then show ?thesis
      using False by (simp add: Cons.IH e unloadChunk_in)
  qed
qed

lemma unloads_none:
  "\<forall>e \<in> set es. \<not> outOfRange px pz (fst e) \<Longrightarrow> fold (unloadChunk px pz) es s = s"
  by (induction es) (auto simp add: unloadChunk_in)

lemma outOfRange_chunkKey:
  "outOfRange px pz (chunkKey x z) \<longleftrightarrow> (x, z) \<notin> window px pz"
  by (auto simp add: outOfRange_def parseKey_chunkKey beyond_def window_def)

lemma set_product_window:
  "set (List.product [px - RENDER_DISTANCE..px + RENDER_DISTANCE]
          [pz - RENDER_DISTANCE..pz + RENDER_DISTANCE]) = window px pz"
  by (auto simp add: window_def)

lemma loadWindow_fold:
  "loadWindow X Z s =
     fold (\<lambda>(x, z). loadChunk x z)
       (List.product [X - RENDER_DISTANCE..X + RENDER_DISTANCE]
          [Z - RENDER_DISTANCE..Z + RENDER_DISTANCE]) s"
  by (simp add: loadWindow_def fold_nested_product)

lemma loadWindow_frame:
  "noise (loadWindow X Z s) = noise s" "character (loadWindow X Z s) = character s"
  by (simp_all add: loadWindow_fold loads_frame)

lemma loadWindow_chunks: "\<exists>new. chunks (loadWindow X Z s) = chunks s @ new"
  by (simp add: loadWindow_fold loads_chunks)

lemma loadWindow_keys:
  "fst ` set (chunks (loadWindow X Z s)) =
     fst ` set (chunks s) \<union> (\<lambda>(x, z). chunkKey x z) ` window X Z"
  by (simp only: loadWindow_fold loads_keys set_product_window)

lemma loadWindow_present:
  assumes "\<forall>(x, z) \<in> window X Z. Map_has (chunks s) (chunkKey x z)"
  shows "loadWindow X Z s = s"
  unfolding loadWindow_fold
  by (rule loads_present) (use assms in \<open>simp only: set_product_window\<close>)

lemma unloadOutside_frame:
  "noise (unloadOutside X Z s) = noise s"
  "character (unloadOutside X Z s) = character s"
  "allocated (unloadOutside X Z s) = allocated s"
  by (simp_all add: unloadOutside_def unloads_frame)

lemma unloadOutside_chunks:
  "chunks (unloadOutside X Z s) = filter (\<lambda>e. \<not> outOfRange X Z (fst e)) (chunks s)"
  unfolding unloadOutside_def unloads_chunks
  by (rule filter_cong) auto

lemma unloadOutside_scene:
  "scene (unloadOutside X Z s) =
     scene s - (ident \<circ> snd) ` {e \<in> set (chunks s). outOfRange X Z (fst e)}"
  by (simp only: unloadOutside_def unloads_scene)

lemma unloadOutside_none:
  "\<forall>e \<in> set (chunks s). \<not> outOfRange X Z (fst e) \<Longrightarrow> unloadOutside X Z s = s"
  by (simp add: unloadOutside_def unloads_none)

lemma updateChunks_Some:
  "character s = Some (rx, ry, rz) \<Longrightarrow>
   updateChunks s =
     Inr (unloadOutside \<lfloor>rx / CHUNK_SIZE\<rfloor> \<lfloor>rz / CHUNK_SIZE\<rfloor>
            (loadWindow \<lfloor>rx / CHUNK_SIZE\<rfloor> \<lfloor>rz / CHUNK_SIZE\<rfloor> s))"
  by (simp add: updateChunks_def Let_def)

lemma canonicalKey_iff: "canonicalKey k \<longleftrightarrow> (\<exists>x z. k = chunkKey x z)"
  by (auto simp add: canonicalKey_def parseKey_chunkKey split: prod.splits option.splits)

lemma fst_image_filter:
  "fst ` set (filter (\<lambda>e. P (fst e)) xs) = {k \<in> fst ` set xs. P k}"
  by (induction xs) auto

lemma Collect_Un_split: "{k \<in> A \<union> B. P k} = {k \<in> A. P k} \<union> {k \<in> B. P k}"
  by blast

lemma window_keys_in_range:
  "{k \<in> (\<lambda>(x, z). chunkKey x z) ` window X Z. \<not> outOfRange X Z k} =
      (\<lambda>(x, z). chunkKey x z) ` window X Z"
  by (auto simp add: outOfRange_chunkKey)

lemma keys_after_update:
  "fst ` set (chunks (unloadOutside X Z (loadWindow X Z s))) =
     {k \<in> fst ` set (chunks s). \<not> outOfRange X Z k} \<union> (\<lambda>(x, z). chunkKey x z) ` window X Z"
  by (simp only: unloadOutside_chunks fst_image_filter [of "\<lambda>k. \<not> outOfRange X Z k"]
      loadWindow_keys Collect_Un_split window_keys_in_range)

lemma keys_after_update_wf:
  assumes "wf_cache s"
  shows "fst ` set (chunks (unloadOutside X Z (loadWindow X Z s))) =
     (\<lambda>(x, z). chunkKey x z) ` window X Z"
proof -
  have "k \<in> (\<lambda>(x, z). chunkKey x z) ` window X Z"
    if "k \<in> fst ` set (chunks s)" "\<not> outOfRange X Z k" for k
  proof -
    from that(1) assms have "canonicalKey k"
      by (auto simp add: wf_cache_def list_all_iff)
    then obtain x z where k: "k = chunkKey x z"
      by (auto simp add: canonicalKey_iff)
    with that(2) have "(x, z) \<in> window X Z"
      by (simp add: outOfRange_chunkKey)
    with k show ?thesis by auto
  qed
  then show ?thesis
    unfolding keys_after_update by blast
qed

lemma map_of_filter_key:
  "map_of (filter (\<lambda>e. P (fst e)) xs) k = (if P k then map_of xs k else None)"
  by (induction xs) auto

lemma updateChunks_Inr:
  assumes "updateChunks s = Inr s'"
  obtains rx ry rz where "character s = Some (rx, ry, rz)"
    and "s' = unloadOutside \<lfloor>rx / CHUNK_SIZE\<rfloor> \<lfloor>rz / CHUNK_SIZE\<rfloor>
            (loadWindow \<lfloor>rx / CHUNK_SIZE\<rfloor> \<lfloor>rz / CHUNK_SIZE\<rfloor> s)"
proof (cases "character s")
  case None
  with assms show ?thesis by (simp add: updateChunks_def)
next
  case (Some p)
  obtain rx ry rz where p: "p = (rx, ry, rz)" by (cases p)
  with Some have c: "character s = Some (rx, ry, rz)" by simp
  from assms show ?thesis
    unfolding updateChunks_Some [OF c] using c that by simp
qed

lemma update_fixpoint:
  "unloadOutside X Z (loadWindow X Z (unloadOutside X Z (loadWindow X Z s))) =
     unloadOutside X Z (loadWindow X Z s)"
proof -
  let ?s' = "unloadOutside X Z (loadWindow X Z s)"
  have "\<forall>(x, z) \<in> window X Z. Map_has (chunks ?s') (chunkKey x z)"
    unfolding Map_has_def keys_after_update by auto
  then have l: "loadWindow X Z ?s' = ?s'"
    by (rule loadWindow_present)
  have "\<forall>e \<in> set (chunks ?s'). \<not> outOfRange X Z (fst e)"
    by (simp add: unloadOutside_chunks)
  then have "unloadOutside X Z ?s' = ?s'"
    by (rule unloadOutside_none)
  with l show ?thesis by simp
qed

lemma resident_after_update:
  "resident (unloadOutside X Z (loadWindow X Z s)) = window X Z"
proof -
  have "Map_has (chunks (unloadOutside X Z (loadWindow X Z s))) (chunkKey x z) \<longleftrightarrow>
      (x, z) \<in> window X Z" for x z
  proof -
    have "chunkKey x z \<in> (\<lambda>(x, z). chunkKey x z) ` window X Z \<longleftrightarrow> (x, z) \<in> window X Z"
      by (auto simp add: chunkKey_inj)
    then show ?thesis
      unfolding Map_has_def keys_after_update
      by (auto simp add: outOfRange_chunkKey)
  qed
  then show ?thesis
    by (auto simp add: resident_def)
qed

lemma wf_cache_empty: "chunks s = [] \<Longrightarrow> wf_cache s"
  by (simp add: wf_cache_def)

lemma wf_cache_updateChunks:
  assumes "wf_cache s" and "updateChunks s = Inr s'"
  shows "wf_cache s'"
proof -
  from assms(2) obtain rx ry rz where
    s': "s' = unloadOutside \<lfloor>rx / CHUNK_SIZE\<rfloor> \<lfloor>rz / CHUNK_SIZE\<rfloor>
            (loadWindow \<lfloor>rx / CHUNK_SIZE\<rfloor> \<lfloor>rz / CHUNK_SIZE\<rfloor> s)"
    by (rule updateChunks_Inr)
  have "\<forall>k \<in> fst ` set (chunks s'). canonicalKey k"
    unfolding s' keys_after_update_wf [OF assms(1)]
    by (auto simp add: canonicalKey_iff)
  then show ?thesis
    by (simp add: wf_cache_def list_all_iff)
qed

section \<open>The chunk factory\<close>

lemma set_upt_plus1: "set [0..<n + 1] = {..n}"
  by auto

lemma positions1_grid:
  "positions1 s x z i = map (\<lambda>j. gridVertex s x z i j) [0..<GRID_DIVISIONS + 1]"
  by (simp add: positions1_def gridVertex_def Let_def)

lemma positions2_grid:
  "positions2 s x z i = map (\<lambda>j. gridVertex s x z j i) [0..<GRID_DIVISIONS + 1]"
  by (simp add: positions2_def gridVertex_def Let_def)

lemma set_concat_pairs: "set (concat (map (\<lambda>i. [f i, g i]) xs)) = f ` set xs \<union> g ` set xs"
  by (induction xs) auto

lemma set_children_createChunk:
  "set (children (fst (createChunk x z s))) =
     positions1 s x z ` {..GRID_DIVISIONS} \<union> positions2 s x z ` {..GRID_DIVISIONS}"
  unfolding createChunk_def by (simp only: fst_conv chunkGroup.simps set_concat_pairs set_upt_plus1)

lemma set_positions1: "set (positions1 s x z i) = (\<lambda>j. gridVertex s x z i j) ` {..GRID_DIVISIONS}"
  by (simp only: positions1_grid set_map set_upt_plus1)

lemma set_positions2: "set (positions2 s x z i) = (\<lambda>j. gridVertex s x z j i) ` {..GRID_DIVISIONS}"
  by (simp only: positions2_grid set_map set_upt_plus1)

lemma vertices_createChunk:
  "vertices (fst (createChunk x z s)) =
     {gridVertex s x z i j | i j. i \<le> GRID_DIVISIONS \<and> j \<le> GRID_DIVISIONS}"
  unfolding vertices_def set_children_createChunk
  by (auto simp add: set_positions1 set_positions2)

lemma gridVertex_props:
  assumes "i \<le> GRID_DIVISIONS" and "j \<le> GRID_DIVISIONS" and "gridVertex s cx cz i j = (x, y, z)"
  shows "y = getNoiseHeight s (of_int cx * CHUNK_SIZE + x) (of_int cz * CHUNK_SIZE + z)"
    and "0 \<le> x" and "x \<le> CHUNK_SIZE" and "0 \<le> z" and "z \<le> CHUNK_SIZE"
proof -
  from assms(3) have x: "x = real i / real GRID_DIVISIONS * CHUNK_SIZE"
    and z: "z = real j / real GRID_DIVISIONS * CHUNK_SIZE"
    and y: "y = getNoiseHeight s (of_int cx * CHUNK_SIZE + x) (of_int cz * CHUNK_SIZE + z)"
    by (auto simp add: gridVertex_def)
  show "y = getNoiseHeight s (of_int cx * CHUNK_SIZE + x) (of_int cz * CHUNK_SIZE + z)"
    by (rule y)
  from assms(1) show "0 \<le> x" "x \<le> CHUNK_SIZE"
    by (simp_all add: x GRID_DIVISIONS_def CHUNK_SIZE_def)
  from assms(2) show "0 \<le> z" "z \<le> CHUNK_SIZE"
    by (simp_all add: z GRID_DIVISIONS_def CHUNK_SIZE_def)
qed

lemma length_concat_pairs: "length (concat (map (\<lambda>i. [f i, g i]) xs)) = 2 * length xs"
  by (induction xs) auto

lemma getNoiseHeight_cong: "noise s' = noise s \<Longrightarrow> getNoiseHeight s' x z = getNoiseHeight s x z"
  by (simp add: getNoiseHeight_def)

lemma edge_heights:
  assumes "noise s' = noise s"
    and v: "(x, y, z) \<in> vertices (fst (createChunk cx cz s))"
    and v': "(x', y', z') \<in> vertices (fst (createChunk (cx + 1) cz s'))"
    and "x = CHUNK_SIZE" and "x' = 0" and "z' = z"
  shows "y' = y"
proof -
  from v obtain i j where ij: "i \<le> GRID_DIVISIONS" "j \<le> GRID_DIVISIONS"
    and g: "gridVertex s cx cz i j = (x, y, z)"
    by (auto simp add: vertices_createChunk)
  from v' obtain i' j' where ij': "i' \<le> GRID_DIVISIONS" "j' \<le> GRID_DIVISIONS"
    and g': "gridVertex s' (cx + 1) cz i' j' = (x', y', z')"
    by (auto simp add: vertices_createChunk)
  have y: "y = getNoiseHeight s (of_int cx * CHUNK_SIZE + x) (of_int cz * CHUNK_SIZE + z)"
    by (rule gridVertex_props(1) [OF ij g])
  have "y' = getNoiseHeight s' (of_int (cx + 1) * CHUNK_SIZE + x') (of_int cz * CHUNK_SIZE + z')"
    by (rule gridVertex_props(1) [OF ij' g'])
  then have "y' = getNoiseHeight s (of_int (cx + 1) * CHUNK_SIZE + x') (of_int cz * CHUNK_SIZE + z')"
    by (simp add: getNoiseHeight_cong [OF assms(1)])
  with y assms(4-6) show ?thesis
    by (simp add: algebra_simps)
qed

lemma gridVertex_mem:
  "i \<le> GRID_DIVISIONS \<Longrightarrow> j \<le> GRID_DIVISIONS \<Longrightarrow>
   gridVertex s x z i j \<in> vertices (fst (createChunk x z s))"
  unfolding vertices_createChunk by blast

section \<open>The example worlds\<close>

lemma example_world_simps:
  "character example_world = Some (25, 1, 0)"
  "noise example_world = example_noise"
  "noise fresh_world = example_noise"
  "chunks example_world =
     [(chunkKey 9 (- 9), fst (createChunk 9 (- 9) fresh_world)),
      (chunkKey 2 1, fst (createChunk 2 1 (snd (createChunk 9 (- 9) fresh_world))))]"
  by (simp_all add: example_world_def fresh_world_def)

lemma example_noise_bounded: "\<bar>example_noise a b c\<bar> \<le> 1"
  by (simp add: example_noise_def)

lemma example_edge_vertex:
  "gridVertex s 1 (- 2) 15 6 = (CHUNK_SIZE, getNoiseHeight s 20 (- 16), 4)"
  "gridVertex s 2 (- 2) 0 6 = (0, getNoiseHeight s 20 (- 16), 4)"
  by (simp_all add: gridVertex_def GRID_DIVISIONS_def CHUNK_SIZE_def)

section \<open>Properties\<close>

text \<open>
  C1 (streaming invariant). When the character stands at \<open>(rx, ry, rz)\<close>,
  \<open>updateChunks\<close> returns, and afterwards the resident chunk coordinates are exactly the
  inclusive square of radius \<open>RENDER_DISTANCE\<close> around
  \<open>(\<lfloor>rx / CHUNK_SIZE\<rfloor>, \<lfloor>rz / CHUNK_SIZE\<rfloor>)\<close>, whatever the cache held before. If the
  cache held canonical keys only, its keys are afterwards exactly the keys of these
  coordinates.
\<close>

theorem updateChunks_streaming_invariant:
  assumes "character s = Some (rx, ry, rz)"
  shows "\<exists>s'. updateChunks s = Inr s' \<and>
    resident s' = {(x, z). \<bar>x - \<lfloor>rx / CHUNK_SIZE\<rfloor>\<bar> \<le> RENDER_DISTANCE \<and>
                           \<bar>z - \<lfloor>rz / CHUNK_SIZE\<rfloor>\<bar> \<le> RENDER_DISTANCE} \<and>
    (wf_cache s \<longrightarrow>
      fst ` set (chunks s') =
        (\<lambda>(x, z). chunkKey x z) `
          {(x, z). \<bar>x - \<lfloor>rx / CHUNK_SIZE\<rfloor>\<bar> \<le> RENDER_DISTANCE \<and>
                   \<bar>z - \<lfloor>rz / CHUNK_SIZE\<rfloor>\<bar> \<le> RENDER_DISTANCE})"
proof -
  let ?X = "\<lfloor>rx / CHUNK_SIZE\<rfloor>" and ?Z = "\<lfloor>rz / CHUNK_SIZE\<rfloor>"
  let ?s' = "unloadOutside ?X ?Z (loadWindow ?X ?Z s)"
  have r: "resident ?s' = window ?X ?Z"
    by (rule resident_after_update)
  show ?thesis
  proof (intro exI conjI impI)
    show "updateChunks s = Inr ?s'"
      by (rule updateChunks_Some [OF assms])
    show "resident ?s' = {(x, z). \<bar>x - ?X\<bar> \<le> RENDER_DISTANCE \<and> \<bar>z - ?Z\<bar> \<le> RENDER_DISTANCE}"
      using r unfolding window_def .
    assume "wf_cache s"
    then have "fst ` set (chunks ?s') = (\<lambda>(x, z). chunkKey x z) ` window ?X ?Z"
      by (rule keys_after_update_wf)
    then show "fst ` set (chunks ?s') =
      (\<lambda>(x, z). chunkKey x z) `
        {(x, z). \<bar>x - ?X\<bar> \<le> RENDER_DISTANCE \<and> \<bar>z - ?Z\<bar> \<le> RENDER_DISTANCE}"
      unfolding window_def .
  qed
qed

theorem updateChunks_streaming_invariant_witness:
  "character example_world = Some (25, 1, 0) \<and> wf_cache example_world \<and>
   (\<exists>s'. updateChunks example_world = Inr s' \<and>
     resident s' = {(x, z). \<bar>x - \<lfloor>25 / CHUNK_SIZE\<rfloor>\<bar> \<le> RENDER_DISTANCE \<and>
                           \<bar>z - \<lfloor>0 / CHUNK_SIZE\<rfloor>\<bar> \<le> RENDER_DISTANCE} \<and>
     fst ` set (chunks s') =
       (\<lambda>(x, z). chunkKey x z) `
         {(x, z). \<bar>x - \<lfloor>25 / CHUNK_SIZE\<rfloor>\<bar> \<le> RENDER_DISTANCE \<and>
                  \<bar>z - \<lfloor>0 / CHUNK_SIZE\<rfloor>\<bar> \<le> RENDER_DISTANCE})"
proof -
  have c: "character example_world = Some (25, 1, 0)"
    by (rule example_world_simps)
  have w: "wf_cache example_world"
    unfolding wf_cache_def example_world_simps by (simp add: canonicalKey_iff) blast
  from updateChunks_streaming_invariant [OF c] w
  have "\<exists>s'. updateChunks example_world = Inr s' \<and>
     resident s' = {(x, z). \<bar>x - \<lfloor>25 / CHUNK_SIZE\<rfloor>\<bar> \<le> RENDER_DISTANCE \<and>
                           \<bar>z - \<lfloor>0 / CHUNK_SIZE\<rfloor>\<bar> \<le> RENDER_DISTANCE} \<and>
     fst ` set (chunks s') =
       (\<lambda>(x, z). chunkKey x z) `
         {(x, z). \<bar>x - \<lfloor>25 / CHUNK_SIZE\<rfloor>\<bar> \<le> RENDER_DISTANCE \<and>
                  \<bar>z - \<lfloor>0 / CHUNK_SIZE\<rfloor>\<bar> \<le> RENDER_DISTANCE}"
    by blast
  with c w show ?thesis
    by (intro conjI)
qed

text \<open>
  C2 (boundary continuity). Let the chunk at \<open>(cx, cz)\<close> be built in a world \<open>s\<close> and the
  chunk at \<open>(cx + 1, cz)\<close> in a world \<open>s'\<close> with the same noise generator. Then a vertex
  of the first with local \<open>x = CHUNK_SIZE\<close> and a vertex of the second with local \<open>x = 0\<close>
  and the same local \<open>z\<close> have the same height; and for every subdivision index
  \<open>j \<le> GRID_DIVISIONS\<close> both chunks do have such a vertex at local
  \<open>z = j / GRID_DIVISIONS * CHUNK_SIZE\<close>.
\<close>

theorem boundary_continuity:
  assumes "noise s' = noise s"
  shows "(\<forall>(x, y, z) \<in> vertices (fst (createChunk cx cz s)).
          \<forall>(x', y', z') \<in> vertices (fst (createChunk (cx + 1) cz s')).
            x = CHUNK_SIZE \<and> x' = 0 \<and> z' = z \<longrightarrow> y' = y) \<and>
         (\<forall>j \<le> GRID_DIVISIONS. \<exists>h.
            (CHUNK_SIZE, h, real j / real GRID_DIVISIONS * CHUNK_SIZE)
              \<in> vertices (fst (createChunk cx cz s)) \<and>
            (0, h, real j / real GRID_DIVISIONS * CHUNK_SIZE)
              \<in> vertices (fst (createChunk (cx + 1) cz s')))"
proof (intro conjI allI impI)
  show "\<forall>(x, y, z) \<in> vertices (fst (createChunk cx cz s)).
          \<forall>(x', y', z') \<in> vertices (fst (createChunk (cx + 1) cz s')).
            x = CHUNK_SIZE \<and> x' = 0 \<and> z' = z \<longrightarrow> y' = y"
    using edge_heights [OF assms] by blast
next
  fix j assume j: "j \<le> GRID_DIVISIONS"
  let ?zj = "real j / real GRID_DIVISIONS * CHUNK_SIZE"
  let ?h = "getNoiseHeight s (of_int cx * CHUNK_SIZE + CHUNK_SIZE) (of_int cz * CHUNK_SIZE + ?zj)"
  have "gridVertex s cx cz GRID_DIVISIONS j = (CHUNK_SIZE, ?h, ?zj)"
    by (simp add: gridVertex_def GRID_DIVISIONS_def)
  then have a: "(CHUNK_SIZE, ?h, ?zj) \<in> vertices (fst (createChunk cx cz s))"
    unfolding vertices_createChunk using j by (metis (mono_tags, lifting) mem_Collect_eq order_refl)
  have "gridVertex s' (cx + 1) cz 0 j = (0, ?h, ?zj)"
    by (simp add: gridVertex_def getNoiseHeight_cong [OF assms] algebra_simps)
  then have b: "(0, ?h, ?zj) \<in> vertices (fst (createChunk (cx + 1) cz s'))"
    unfolding vertices_createChunk using j by (metis (mono_tags, lifting) mem_Collect_eq le0)
  from a b show "\<exists>h. (CHUNK_SIZE, h, ?zj) \<in> vertices (fst (createChunk cx cz s)) \<and>
      (0, h, ?zj) \<in> vertices (fst (createChunk (cx + 1) cz s'))"
    by blast
qed

theorem boundary_continuity_witness:
  "noise fresh_world = noise example_world \<and>
   (CHUNK_SIZE, getNoiseHeight example_world 20 (- 16), 4)
     \<in> vertices (fst (createChunk 1 (- 2) example_world)) \<and>
   (0, getNoiseHeight fresh_world 20 (- 16), 4)
     \<in> vertices (fst (createChunk (1 + 1) (- 2) fresh_world)) \<and>
   getNoiseHeight fresh_world 20 (- 16) = getNoiseHeight example_world 20 (- 16)"
proof -
  have n: "noise fresh_world = noise example_world"
    by (simp add: example_world_simps)
  have a: "(CHUNK_SIZE, getNoiseHeight example_world 20 (- 16), 4)
      \<in> vertices (fst (createChunk 1 (- 2) example_world))"
    using gridVertex_mem [of 15 6 example_world 1 "- 2"]
    by (simp add: example_edge_vertex GRID_DIVISIONS_def)
  have b: "(0, getNoiseHeight fresh_world 20 (- 16), 4)
      \<in> vertices (fst (createChunk (1 + 1) (- 2) fresh_world))"
    using gridVertex_mem [of 0 6 fresh_world 2 "- 2"]
    by (simp add: example_edge_vertex GRID_DIVISIONS_def)
  have "\<forall>(x', y', z') \<in> vertices (fst (createChunk (1 + 1) (- 2) fresh_world)).
      x' = 0 \<and> z' = 4 \<longrightarrow> y' = getNoiseHeight example_world 20 (- 16)"
    using boundary_continuity [OF n, of 1 "- 2", THEN conjunct1, THEN bspec, OF a] by simp
  from bspec [OF this b]
  have "getNoiseHeight fresh_world 20 (- 16) = getNoiseHeight example_world 20 (- 16)"
    by simp
  with n a b show ?thesis
    by (intro conjI)
qed

text \<open>
  C3 (determinism). The height function reads the noise generator and nothing else of the
  world: it returns the same value whatever the character, the cache, the scene and the
  allocation count are, and the streaming update leaves the generator, hence every height,
  unchanged.
\<close>

theorem getNoiseHeight_deterministic:
  assumes "character s = Some p"
  shows "\<exists>s'. updateChunks s = Inr s' \<and> noise s' = noise s \<and>
      getNoiseHeight s' x z = getNoiseHeight s x z \<and>
      getNoiseHeight (s\<lparr>character := c, chunks := m, scene := sc, allocated := n\<rparr>) x z =
        getNoiseHeight s x z"
proof -
  obtain rx ry rz where "p = (rx, ry, rz)" by (cases p)
  with assms have c: "character s = Some (rx, ry, rz)" by simp
  show ?thesis
    unfolding updateChunks_Some [OF c]
    by (simp add: getNoiseHeight_def unloadOutside_frame loadWindow_frame)
qed

theorem getNoiseHeight_deterministic_witness:
  "character example_world = Some (25, 1, 0) \<and>
   (\<exists>s'. updateChunks example_world = Inr s' \<and> noise s' = noise example_world \<and>
      getNoiseHeight s' 3 4 = getNoiseHeight example_world 3 4 \<and>
      getNoiseHeight (example_world\<lparr>character := None, chunks := [], scene := {},
                         allocated := 0\<rparr>) 3 4 =
        getNoiseHeight example_world 3 4)"
proof -
  have c: "character example_world = Some (25, 1, 0)"
    by (rule example_world_simps)
  from c getNoiseHeight_deterministic [OF c, where x = 3 and z = 4 and c = None and m = "[]" and sc = "{}" and n = 0] show ?thesis
    by (intro conjI)
qed

text \<open>
  C4 (height formula). For all \<open>x\<close> and \<open>z\<close> the height is
  \<open>HEIGHT_SCALE * noise (x * 0.1) 0 (z * 0.1)\<close>, that is \<open>3 * noise (x / 10) 0 (z / 10)\<close>;
  the function has no error branch.
\<close>

theorem getNoiseHeight_formula:
  "getNoiseHeight s x z = HEIGHT_SCALE * noise s (x * 0.1) 0 (z * 0.1) \<and>
   getNoiseHeight s x z = 3 * noise s (x / 10) 0 (z / 10)"
  by (simp add: getNoiseHeight_def HEIGHT_SCALE_def)

text \<open>
  C5 (chunk factory). \<open>createChunk cx cz\<close> makes \<open>2 * (GRID_DIVISIONS + 1)\<close> lines of
  \<open>GRID_DIVISIONS + 1\<close> vertices each. Every vertex \<open>(x, y, z)\<close> of every line has its
  height sampled at the world coordinates \<open>(cx * CHUNK_SIZE + x, cz * CHUNK_SIZE + z)\<close>, its
  local coordinates \<open>x\<close> and \<open>z\<close> lie in \<open>[0, CHUNK_SIZE]\<close>, and the chunk is placed at
  \<open>(cx * CHUNK_SIZE, 0, cz * CHUNK_SIZE)\<close>.
\<close>

theorem createChunk_vertices:
  "(\<forall>line \<in> set (children (fst (createChunk cx cz s))). length line = GRID_DIVISIONS + 1 \<and>
      (\<forall>(x, y, z) \<in> set line.
         y = getNoiseHeight s (of_int cx * CHUNK_SIZE + x) (of_int cz * CHUNK_SIZE + z) \<and>
         0 \<le> x \<and> x \<le> CHUNK_SIZE \<and> 0 \<le> z \<and> z \<le> CHUNK_SIZE)) \<and>
   length (children (fst (createChunk cx cz s))) = 2 * (GRID_DIVISIONS + 1) \<and>
   position (fst (createChunk cx cz s)) = (of_int cx * CHUNK_SIZE, 0, of_int cz * CHUNK_SIZE)"
proof (intro conjI ballI)
  fix line assume l: "line \<in> set (children (fst (createChunk cx cz s)))"
  then show "length line = GRID_DIVISIONS + 1"
    by (auto simp add: set_children_createChunk positions1_grid positions2_grid)
  fix v assume v: "v \<in> set line"
  obtain x y z where xyz: "v = (x, y, z)" by (cases v)
  from l v obtain i j where ij: "i \<le> GRID_DIVISIONS" "j \<le> GRID_DIVISIONS"
    and g: "gridVertex s cx cz i j = v"
    by (auto simp add: set_children_createChunk set_positions1 set_positions2)
  from gridVertex_props [OF ij g [unfolded xyz]]
  show "case v of (x, y, z) \<Rightarrow>
         y = getNoiseHeight s (of_int cx * CHUNK_SIZE + x) (of_int cz * CHUNK_SIZE + z) \<and>
         0 \<le> x \<and> x \<le> CHUNK_SIZE \<and> 0 \<le> z \<and> z \<le> CHUNK_SIZE"
    by (simp add: xyz)
next
  show "length (children (fst (createChunk cx cz s))) = 2 * (GRID_DIVISIONS + 1)"
    by (simp add: createChunk_def length_concat_pairs)
  show "position (fst (createChunk cx cz s)) = (of_int cx * CHUNK_SIZE, 0, of_int cz * CHUNK_SIZE)"
    by (simp add: createChunk_def)
qed

theorem createChunk_vertices_witness:
  "positions1 example_world 1 (- 2) 15 \<in> set (children (fst (createChunk 1 (- 2) example_world))) \<and>
   (CHUNK_SIZE, getNoiseHeight example_world 20 (- 16), 4)
     \<in> set (positions1 example_world 1 (- 2) 15) \<and>
   length (positions1 example_world 1 (- 2) 15) = GRID_DIVISIONS + 1 \<and>
   getNoiseHeight example_world 20 (- 16) =
     getNoiseHeight example_world (of_int 1 * CHUNK_SIZE + CHUNK_SIZE) (of_int (- 2) * CHUNK_SIZE + 4) \<and>
   0 \<le> CHUNK_SIZE \<and> CHUNK_SIZE \<le> CHUNK_SIZE \<and> (0::real) \<le> 4 \<and> 4 \<le> CHUNK_SIZE"
proof -
  have a: "positions1 example_world 1 (- 2) 15
      \<in> set (children (fst (createChunk 1 (- 2) example_world)))"
    unfolding set_children_createChunk
    by (rule UnI1, rule imageI) (simp add: GRID_DIVISIONS_def)
  have b: "(CHUNK_SIZE, getNoiseHeight example_world 20 (- 16), 4)
      \<in> set (positions1 example_world 1 (- 2) 15)"
    unfolding set_positions1
    by (rule image_eqI [where x = 6]) (simp_all add: example_edge_vertex GRID_DIVISIONS_def)
  from createChunk_vertices [of 1 "- 2" example_world, THEN conjunct1, THEN bspec, OF a]
  have l: "length (positions1 example_world 1 (- 2) 15) = GRID_DIVISIONS + 1"
    and v: "\<forall>(x, y, z) \<in> set (positions1 example_world 1 (- 2) 15).
         y = getNoiseHeight example_world (of_int 1 * CHUNK_SIZE + x) (of_int (- 2) * CHUNK_SIZE + z) \<and>
         0 \<le> x \<and> x \<le> CHUNK_SIZE \<and> 0 \<le> z \<and> z \<le> CHUNK_SIZE"
    by blast+
  from bspec [OF v b] a b l show ?thesis
    by simp
qed

text \<open>
  C6 (eviction completeness). If the cache holds an entry for the coordinate \<open>(x, z)\<close> and
  the Chebyshev distance of \<open>(x, z)\<close> from the chunk coordinate of the character, as this
  call computes it, exceeds \<open>RENDER_DISTANCE\<close>, then this one call of \<open>updateChunks\<close>
  removes the key from the cache and the chunk object from the scene.
\<close>

theorem updateChunks_evicts:
  assumes "character s = Some (rx, ry, rz)"
    and "(chunkKey x z, c) \<in> set (chunks s)"
    and "max \<bar>x - \<lfloor>rx / CHUNK_SIZE\<rfloor>\<bar> \<bar>z - \<lfloor>rz / CHUNK_SIZE\<rfloor>\<bar> > RENDER_DISTANCE"
  shows "\<exists>s'. updateChunks s = Inr s' \<and>
    \<not> Map_has (chunks s') (chunkKey x z) \<and> (x, z) \<notin> resident s' \<and> ident c \<notin> scene s'"
proof -
  let ?X = "\<lfloor>rx / CHUNK_SIZE\<rfloor>" and ?Z = "\<lfloor>rz / CHUNK_SIZE\<rfloor>"
  let ?s1 = "loadWindow ?X ?Z s"
  let ?s' = "unloadOutside ?X ?Z ?s1"
  from assms(3) have "(x, z) \<notin> window ?X ?Z"
    by (auto simp add: window_def)
  then have out: "outOfRange ?X ?Z (chunkKey x z)"
    by (simp add: outOfRange_chunkKey)
  obtain new where "chunks ?s1 = chunks s @ new"
    using loadWindow_chunks by blast
  with assms(2) have mem: "(chunkKey x z, c) \<in> set (chunks ?s1)"
    by simp
  have gone: "\<not> Map_has (chunks ?s') (chunkKey x z)"
    using out by (auto simp add: Map_has_def unloadOutside_chunks)
  then have nres: "(x, z) \<notin> resident ?s'"
    by (simp add: resident_def)
  have "ident c \<in> (ident \<circ> snd) ` {e \<in> set (chunks ?s1). outOfRange ?X ?Z (fst e)}"
    using mem out by force
  then have "ident c \<notin> scene ?s'"
    by (simp only: unloadOutside_scene) blast
  with gone nres show ?thesis
    using updateChunks_Some [OF assms(1)] by blast
qed

theorem updateChunks_evicts_witness:
  "character example_world = Some (25, 1, 0) \<and>
   (chunkKey 9 (- 9), fst (createChunk 9 (- 9) fresh_world)) \<in> set (chunks example_world) \<and>
   max \<bar>9 - \<lfloor>25 / CHUNK_SIZE\<rfloor>\<bar> \<bar>- 9 - \<lfloor>0 / CHUNK_SIZE\<rfloor>\<bar> > RENDER_DISTANCE \<and>
   (\<exists>s'. updateChunks example_world = Inr s' \<and>
      \<not> Map_has (chunks s') (chunkKey 9 (- 9)) \<and> (9, - 9) \<notin> resident s' \<and>
      ident (fst (createChunk 9 (- 9) fresh_world)) \<notin> scene s')"
proof -
  have c: "character example_world = Some (25, 1, 0)"
    by (rule example_world_simps)
  have m: "(chunkKey 9 (- 9), fst (createChunk 9 (- 9) fresh_world)) \<in> set (chunks example_world)"
    by (simp add: example_world_simps)
  have d: "max \<bar>9 - \<lfloor>25 / CHUNK_SIZE\<rfloor>\<bar> \<bar>- 9 - \<lfloor>0 / CHUNK_SIZE\<rfloor>\<bar> > RENDER_DISTANCE"
    by (simp add: CHUNK_SIZE_def RENDER_DISTANCE_def)
  from c m d updateChunks_evicts [OF c m d] show ?thesis
    by (intro conjI)
qed

text \<open>
  C7 (idempotence). From any world with a loaded character, \<open>updateChunks\<close> returns a
  world that a second call with the same character position returns unchanged: cache,
  scene and allocation count are the same, so nothing is created and nothing is evicted.
\<close>

theorem updateChunks_idempotent:
  assumes "character s = Some p"
  shows "\<exists>s'. updateChunks s = Inr s' \<and> updateChunks s' = Inr s'"
proof -
  obtain rx ry rz where "p = (rx, ry, rz)" by (cases p)
  with assms have c: "character s = Some (rx, ry, rz)" by simp
  let ?X = "\<lfloor>rx / CHUNK_SIZE\<rfloor>" and ?Z = "\<lfloor>rz / CHUNK_SIZE\<rfloor>"
  let ?s' = "unloadOutside ?X ?Z (loadWindow ?X ?Z s)"
  have first: "updateChunks s = Inr ?s'"
    using c by (rule updateChunks_Some)
  have "character ?s' = Some (rx, ry, rz)"
    by (simp add: unloadOutside_frame loadWindow_frame c)
  then have "updateChunks ?s' = Inr (unloadOutside ?X ?Z (loadWindow ?X ?Z ?s'))"
    by (rule updateChunks_Some)
  then have "updateChunks ?s' = Inr ?s'"
    unfolding update_fixpoint .
  with first show ?thesis by blast
qed

theorem updateChunks_idempotent_witness:
  "character example_world = Some (25, 1, 0) \<and>
   (\<exists>s'. updateChunks example_world = Inr s' \<and> updateChunks s' = Inr s')"
proof -
  have c: "character example_world = Some (25, 1, 0)"
    by (rule example_world_simps)
  from c updateChunks_idempotent [OF c] show ?thesis
    by (intro conjI)
qed

text \<open>
  C8 (no duplicate creation). If the cache maps the key of \<open>(x, z)\<close> to the chunk object
  \<open>c\<close> and \<open>(x, z)\<close> lies in the render window of a call of \<open>updateChunks\<close>, then after
  the call the cache maps the key to the same object \<open>c\<close> (same identity, same lines).
\<close>

theorem updateChunks_keeps_resident:
  assumes "character s = Some (rx, ry, rz)"
    and "Map_get (chunks s) (chunkKey x z) = Some c"
    and "\<bar>x - \<lfloor>rx / CHUNK_SIZE\<rfloor>\<bar> \<le> RENDER_DISTANCE"
    and "\<bar>z - \<lfloor>rz / CHUNK_SIZE\<rfloor>\<bar> \<le> RENDER_DISTANCE"
  shows "\<exists>s'. updateChunks s = Inr s' \<and> Map_get (chunks s') (chunkKey x z) = Some c"
proof -
  let ?X = "\<lfloor>rx / CHUNK_SIZE\<rfloor>" and ?Z = "\<lfloor>rz / CHUNK_SIZE\<rfloor>"
  let ?s1 = "loadWindow ?X ?Z s"
  let ?s' = "unloadOutside ?X ?Z ?s1"
  from assms(3,4) have "(x, z) \<in> window ?X ?Z"
    by (simp add: window_def)
  then have inr: "\<not> outOfRange ?X ?Z (chunkKey x z)"
    by (simp add: outOfRange_chunkKey)
  obtain new where "chunks ?s1 = chunks s @ new"
    using loadWindow_chunks by blast
  with assms(2) have "map_of (chunks ?s1) (chunkKey x z) = Some c"
    by (simp add: Map_get_def map_add_def)
  with inr have "Map_get (chunks ?s') (chunkKey x z) = Some c"
    by (simp add: Map_get_def unloadOutside_chunks
        map_of_filter_key [of "\<lambda>k. \<not> outOfRange ?X ?Z k"])
  then show ?thesis
    using updateChunks_Some [OF assms(1)] by blast
qed

theorem updateChunks_keeps_resident_witness:
  "character example_world = Some (25, 1, 0) \<and>
   Map_get (chunks example_world) (chunkKey 2 1) =
     Some (fst (createChunk 2 1 (snd (createChunk 9 (- 9) fresh_world)))) \<and>
   \<bar>2 - \<lfloor>25 / CHUNK_SIZE\<rfloor>\<bar> \<le> RENDER_DISTANCE \<and>
   \<bar>1 - \<lfloor>0 / CHUNK_SIZE\<rfloor>\<bar> \<le> RENDER_DISTANCE \<and>
   (\<exists>s'. updateChunks example_world = Inr s' \<and>
      Map_get (chunks s') (chunkKey 2 1) =
        Some (fst (createChunk 2 1 (snd (createChunk 9 (- 9) fresh_world)))))"
proof -
  have c: "character example_world = Some (25, 1, 0)"
    by (rule example_world_simps)
  have m: "Map_get (chunks example_world) (chunkKey 2 1) =
     Some (fst (createChunk 2 1 (snd (createChunk 9 (- 9) fresh_world))))"
    by (simp add: example_world_simps Map_get_def chunkKey_inj)
  have x: "\<bar>2 - \<lfloor>25 / CHUNK_SIZE\<rfloor>\<bar> \<le> RENDER_DISTANCE"
    by (simp add: CHUNK_SIZE_def RENDER_DISTANCE_def)
  have z: "\<bar>1 - \<lfloor>0 / CHUNK_SIZE\<rfloor>\<bar> \<le> RENDER_DISTANCE"
    by (simp add: CHUNK_SIZE_def RENDER_DISTANCE_def)
  from c m x z updateChunks_keeps_resident [OF c m x z] show ?thesis
    by (intro conjI)
qed

text \<open>
  C9 (keys). Two chunk coordinates have the same key exactly when they are equal, negative
  coordinates included, and reading a key back as eviction does recovers the pair.
\<close>

theorem chunkKey_bijective:
  "(chunkKey x z = chunkKey x' z' \<longleftrightarrow> x = x' \<and> z = z') \<and>
   parseKey (chunkKey x z) = (Some x, Some z)"
  by (simp add: chunkKey_inj parseKey_chunkKey)

text \<open>
  C10 (height bound). If the noise generator returns values in \<open>[-1, 1]\<close>
  (\<open>noise_in_range\<close>), then every
  height lies in \<open>[-HEIGHT_SCALE, HEIGHT_SCALE]\<close>, and so does the height of every vertex
  of every chunk.
\<close>

theorem getNoiseHeight_bounded:
  assumes "noise_in_range s"
  shows "\<bar>getNoiseHeight s x z\<bar> \<le> HEIGHT_SCALE \<and>
    (\<forall>(vx, vy, vz) \<in> vertices (fst (createChunk cx cz s)).
       - HEIGHT_SCALE \<le> vy \<and> vy \<le> HEIGHT_SCALE)"
proof -
  have "\<bar>noise s a b c\<bar> \<le> 1" for a b c
    using assms by (simp add: noise_in_range_def abs_le_iff)
  then have b: "\<bar>getNoiseHeight s u w\<bar> \<le> HEIGHT_SCALE" for u w
    by (simp add: getNoiseHeight_def HEIGHT_SCALE_def abs_mult)
  have "\<bar>vy\<bar> \<le> HEIGHT_SCALE" if "(vx, vy, vz) \<in> vertices (fst (createChunk cx cz s))"
    for vx vy vz
    using that b by (auto simp add: vertices_createChunk gridVertex_def)
  then show ?thesis
    using b by fastforce
qed

theorem getNoiseHeight_bounded_witness:
  "noise_in_range example_world \<and>
   \<bar>getNoiseHeight example_world 3 4\<bar> \<le> HEIGHT_SCALE \<and>
   (CHUNK_SIZE, getNoiseHeight example_world 20 (- 16), 4)
     \<in> vertices (fst (createChunk 1 (- 2) example_world)) \<and>
   - HEIGHT_SCALE \<le> getNoiseHeight example_world 20 (- 16) \<and>
   getNoiseHeight example_world 20 (- 16) \<le> HEIGHT_SCALE"
proof -
  have n: "noise_in_range example_world"
    using example_noise_bounded
    by (simp add: noise_in_range_def example_world_simps abs_le_iff)
  have a: "(CHUNK_SIZE, getNoiseHeight example_world 20 (- 16), 4)
      \<in> vertices (fst (createChunk 1 (- 2) example_world))"
    using gridVertex_mem [of 15 6 example_world 1 "- 2"]
    by (simp add: example_edge_vertex GRID_DIVISIONS_def)
  from getNoiseHeight_bounded [OF n, of 3 4 1 "- 2"]
  have h: "\<bar>getNoiseHeight example_world 3 4\<bar> \<le> HEIGHT_SCALE"
    and v: "\<forall>(vx, vy, vz) \<in> vertices (fst (createChunk 1 (- 2) example_world)).
       - HEIGHT_SCALE \<le> vy \<and> vy \<le> HEIGHT_SCALE"
    by blast+
  from bspec [OF v a] n a h show ?thesis
    by simp
qed

end
